theory Spec2Isabelle
  imports Complex_Main
begin

section \<open>Numbers\<close>

text \<open>
  The build script computes with Python numbers. Coordinates, axis values and
  interpolation weights are modelled as exact rationals; the built-in
  \<^verbatim>\<open>round(x)\<close> with one argument returns an integer, rounding halves to the
  even neighbour, and \<^verbatim>\<open>abs\<close> is the absolute value.
\<close>

definition py_round :: "rat \<Rightarrow> int" where
  "py_round x =
     (let f = \<lfloor>x\<rfloor>; d = x - of_int f
      in if d < 1 / 2 then f
         else if 1 / 2 < d then f + 1
         else if even f then f else f + 1)"

datatype error =
    ValueError
  | StopIteration
  | AttributeError
  | IndexError
  | KeyError
  | ZeroDivisionError
  | TypeError
  | RuntimeError

section \<open>Outline data\<close>

record node =
  position :: "rat \<times> rat"
  ntype :: string
  smooth :: bool

record path =
  nodes :: "node list"
  closed :: bool

type_synonym transform = "rat \<times> rat \<times> rat \<times> rat \<times> rat \<times> rat"

section \<open>Interpolation primitives\<close>

text \<open>\<^verbatim>\<open>Font._rescale\<close>: the division raises when the axis range is empty.\<close>

definition rescale :: "rat \<Rightarrow> rat \<Rightarrow> rat \<Rightarrow> error + rat" where
  "rescale x bottom_v top_v =
     (if top_v - bottom_v = 0 then Inl ZeroDivisionError
      else Inr ((x - bottom_v) / (top_v - bottom_v)))"

text \<open>\<^verbatim>\<open>Font._interpolate_node\<close>.\<close>

definition interpolate_node :: "node \<Rightarrow> node \<Rightarrow> rat \<Rightarrow> node" where
  "interpolate_node node_0 node_1 v =
     \<lparr> position =
         (of_int (py_round (fst (position node_0) * (1 - v) + fst (position node_1) * v)),
          of_int (py_round (snd (position node_0) * (1 - v) + snd (position node_1) * v))),
       ntype = ntype node_0,
       smooth = smooth node_0 \<rparr>"

text \<open>
  \<^verbatim>\<open>Font._interpolate_path\<close>: a shallow copy of the first path whose nodes are
  the pairwise interpolations; \<^verbatim>\<open>zip\<close> stops at the shorter node list.
\<close>

definition interpolate_path :: "path \<Rightarrow> path \<Rightarrow> rat \<Rightarrow> path" where
  "interpolate_path path_0 path_1 v =
     path_0 \<lparr> nodes := map (\<lambda>(node_0, node_1). interpolate_node node_0 node_1 v)
                          (zip (nodes path_0) (nodes path_1)) \<rparr>"

section \<open>Glyph data\<close>

text \<open>
  A component reference names the glyph it places, carries a transform and, when it is
  a smart component, a dictionary from axis names to values. A layer keeps paths and
  components in one list of shapes, as \<^verbatim>\<open>GSLayer._shapes\<close> does. Dictionaries keep
  their insertion order and are association lists.
\<close>

record component =
  cname :: string
  ctransform :: transform
  smartComponentValues :: "(string \<times> rat) list"

datatype shape = Path path | Component component

record axis =
  axis_name :: string
  bottomValue :: rat
  topValue :: rat

record layer =
  layerId :: string
  associatedMasterId :: string
  partSelection :: "(string \<times> int) list"
  shapes :: "shape list"
  userData :: "(string \<times> rat) list list"

record glyph =
  glyph_name :: string
  export :: bool
  smartComponentAxes :: "axis list"
  layers :: "layer list"

definition paths :: "layer \<Rightarrow> path list" where
  "paths l = List.map_filter (\<lambda>s. case s of Path p \<Rightarrow> Some p | Component _ \<Rightarrow> None) (shapes l)"

definition components :: "layer \<Rightarrow> component list" where
  "components l =
     List.map_filter (\<lambda>s. case s of Path _ \<Rightarrow> None | Component c \<Rightarrow> Some c) (shapes l)"

text \<open>\<^verbatim>\<open>comp.component\<close> looks the referenced glyph up by name and is \<^verbatim>\<open>None\<close>
  when the font has no such glyph.\<close>

definition glyph_by_name :: "glyph list \<Rightarrow> string \<Rightarrow> glyph option" where
  "glyph_by_name font n = find (\<lambda>g. glyph_name g = n) font"

section \<open>Exceptions and loops\<close>

definition bind_e :: "error + 'a \<Rightarrow> ('a \<Rightarrow> error + 'b) \<Rightarrow> error + 'b" where
  "bind_e m f = (case m of Inl e \<Rightarrow> Inl e | Inr x \<Rightarrow> f x)"

text \<open>A \<^verbatim>\<open>for\<close> loop over a list that updates a state and stops at the first exception.\<close>

fun fold_e :: "('a \<Rightarrow> 's \<Rightarrow> error + 's) \<Rightarrow> 'a list \<Rightarrow> 's \<Rightarrow> error + 's" where
  "fold_e f [] s = Inr s"
| "fold_e f (x # xs) s = bind_e (f x s) (fold_e f xs)"

text \<open>A list comprehension whose element expression may raise.\<close>

fun map_e :: "('a \<Rightarrow> error + 'b) \<Rightarrow> 'a list \<Rightarrow> error + 'b list" where
  "map_e f [] = Inr []"
| "map_e f (x # xs) = bind_e (f x) (\<lambda>y. bind_e (map_e f xs) (\<lambda>ys. Inr (y # ys)))"

text \<open>\<^verbatim>\<open>next(x for x in xs if p(x))\<close> where the test itself may raise.\<close>

fun next_where :: "('a \<Rightarrow> error + bool) \<Rightarrow> 'a list \<Rightarrow> error + 'a" where
  "next_where p [] = Inl StopIteration"
| "next_where p (x # xs) = bind_e (p x) (\<lambda>b. if b then Inr x else next_where p xs)"

section \<open>Path and node resolver\<close>



text \<open>
  The two local \<^verbatim>\<open>_is_part_n\<close> tests of \<^verbatim>\<open>Font._smart_component_to_paths\<close>.
  The part selection is only read for a layer of the right master. Without an axis
  value the first key of the layer's part selection is used.
\<close>

definition is_part_n_first :: "string \<Rightarrow> layer \<Rightarrow> int \<Rightarrow> error + bool" where
  "is_part_n_first master_id l n =
     (if associatedMasterId l = master_id
      then (case partSelection l of
              [] \<Rightarrow> Inl RuntimeError
            | (_, sel) # _ \<Rightarrow> Inr (sel = n))
      else Inr False)"

definition is_part_n_key :: "string \<Rightarrow> string \<Rightarrow> layer \<Rightarrow> int \<Rightarrow> error + bool" where
  "is_part_n_key master_id key l n =
     (if associatedMasterId l = master_id
      then (case map_of (partSelection l) key of
              None \<Rightarrow> Inl KeyError
            | Some sel \<Rightarrow> Inr (sel = n))
      else Inr False)"

text \<open>
  The tail of \<^verbatim>\<open>Font._smart_component_to_paths\<close>: find the part-1 and the part-2
  layer of the referenced glyph, interpolate their paths pairwise (\<^verbatim>\<open>zip\<close> stops at
  the shorter list) and transform each result. \<^verbatim>\<open>GSPath.applyTransform\<close> belongs to
  the glyph library and is the parameter \<open>applyTransform\<close>.
\<close>

definition interpolate_layers ::
  "(transform \<Rightarrow> path \<Rightarrow> path) \<Rightarrow> component \<Rightarrow> glyph option \<Rightarrow>
   (layer \<Rightarrow> int \<Rightarrow> error + bool) \<Rightarrow> rat \<Rightarrow> error + path list" where
  "interpolate_layers applyTransform cmp ref_glyph is_part_n interpolation_value =
     (case ref_glyph of
        None \<Rightarrow> Inl AttributeError
      | Some g \<Rightarrow>
          bind_e (next_where (\<lambda>l. is_part_n l 1) (layers g)) (\<lambda>layer_0.
          bind_e (next_where (\<lambda>l. is_part_n l 2) (layers g)) (\<lambda>layer_1.
            Inr (map (\<lambda>(path_0, path_1).
                        applyTransform (ctransform cmp)
                          (interpolate_path path_0 path_1 interpolation_value))
                     (zip (paths layer_0) (paths layer_1))))))"

definition smart_component_to_paths ::
  "(transform \<Rightarrow> path \<Rightarrow> path) \<Rightarrow> glyph list \<Rightarrow> string \<Rightarrow> component \<Rightarrow> error + path list" where
  "smart_component_to_paths applyTransform font master_id cmp =
     (let ref_glyph = glyph_by_name font (cname cmp)
      in case smartComponentValues cmp of
           [] \<Rightarrow> interpolate_layers applyTransform cmp ref_glyph (is_part_n_first master_id) 0
         | [(key, v)] \<Rightarrow>
             (case ref_glyph of
                None \<Rightarrow> Inl AttributeError
              | Some g \<Rightarrow>
                  (case find (\<lambda>a. axis_name a = key) (smartComponentAxes g) of
                     None \<Rightarrow> Inl StopIteration
                   | Some a \<Rightarrow>
                       bind_e (rescale v (bottomValue a) (topValue a)) (\<lambda>interpolation_value.
                         interpolate_layers applyTransform cmp ref_glyph
                           (is_part_n_key master_id key) interpolation_value)))
         | _ \<Rightarrow> Inl ValueError)"


section \<open>Component decomposer\<close>

text \<open>
  The decomposer rewrites the glyph table in place. The table is a list of glyphs and a
  layer is addressed by the index of its glyph and its own index, so that every read of
  a referenced glyph sees the writes made so far.
\<close>

definition upd_layer :: "nat \<Rightarrow> nat \<Rightarrow> (layer \<Rightarrow> layer) \<Rightarrow> glyph list \<Rightarrow> glyph list" where
  "upd_layer gi li f font =
     font[gi := (font ! gi)\<lparr> layers := (layers (font ! gi))[li := f (layers (font ! gi) ! li)] \<rparr>]"

text \<open>\<^verbatim>\<open>layer.paths.extend(paths)\<close> appends to the layer's shapes.\<close>

definition extend_paths :: "path list \<Rightarrow> layer \<Rightarrow> layer" where
  "extend_paths ps l = l\<lparr> shapes := shapes l @ map Path ps \<rparr>"

text \<open>
  \<^verbatim>\<open>layer._shapes = [s for s in layer._shapes if s not in to_be_removed]\<close>. Python
  tests membership by identity here; the model compares shapes by their contents. Both
  give the same list, because equal components of one layer are appended to
  \<^verbatim>\<open>to_be_removed\<close> or skipped alike, and a path is never a component.
\<close>

definition remove_shapes :: "component list \<Rightarrow> layer \<Rightarrow> layer" where
  "remove_shapes to_be_removed l =
     l\<lparr> shapes := filter (\<lambda>s. s \<notin> set (map Component to_be_removed)) (shapes l) \<rparr>"








section \<open>Masters, instances and per-master data\<close>

record master =
  master_id :: string
  weightValue :: rat

record font_instance =
  instance_name :: string
  active :: bool
  instanceInterpolations :: "(string \<times> rat) list"
  remove_glyphs_parameter :: "string list option"

text \<open>Assignment to a dictionary key: an existing key keeps its place.\<close>

fun dict_set :: "'k \<Rightarrow> 'v \<Rightarrow> ('k \<times> 'v) list \<Rightarrow> ('k \<times> 'v) list" where
  "dict_set k v [] = [(k, v)]"
| "dict_set k v ((k', v') # d) = (if k' = k then (k, v) # d else (k', v') # dict_set k v d)"

text \<open>The fields set up by \<^verbatim>\<open>Font.__init__\<close>.\<close>

definition master_id_indices :: "master list \<Rightarrow> (string \<times> nat) list" where
  "master_id_indices ms =
     fold (\<lambda>(i, m). dict_set (master_id m) i) (enumerate 0 (sort_key weightValue ms)) []"

definition interpolations ::
  "(string \<times> nat) list \<Rightarrow> font_instance list \<Rightarrow> error + (string \<times> (nat \<times> rat) list) list" where
  "interpolations mii insts =
     fold_e (\<lambda>i d.
        if active i
        then bind_e (map_e (\<lambda>(mid, v). case map_of mii mid of
                                          None \<Rightarrow> Inl KeyError
                                        | Some k \<Rightarrow> Inr (k, v))
                       (instanceInterpolations i))
               (\<lambda>vec. Inr (dict_set (instance_name i) vec d))
        else Inr d) insts []"

text \<open>\<^verbatim>\<open>Font._master_layers\<close>: the layers that are master layers, in master order;
  \<^verbatim>\<open>sorted\<close> is stable and computes every key first.\<close>

definition master_layers :: "(string \<times> nat) list \<Rightarrow> layer list \<Rightarrow> error + layer list" where
  "master_layers mii ls =
     bind_e (map_e (\<lambda>l. case map_of mii (associatedMasterId l) of
                           None \<Rightarrow> Inl KeyError
                         | Some i \<Rightarrow> Inr (i, l))
               (filter (\<lambda>l. associatedMasterId l = layerId l) ls))
       (\<lambda>keyed. Inr (map snd (sort_key fst keyed)))"

text \<open>
  \<^verbatim>\<open>Font._get_user_data\<close>: one value for each master layer that records the name.
  The user data of a layer is the list of dictionaries that iterating over it yields.
\<close>

definition get_user_data :: "(string \<times> nat) list \<Rightarrow> glyph \<Rightarrow> string \<Rightarrow> error + rat list" where
  "get_user_data mii g name =
     bind_e (master_layers mii (layers g)) (\<lambda>ls.
       Inr (List.map_filter
              (\<lambda>l. case find (\<lambda>d. map_of d name \<noteq> None) (userData l) of
                      None \<Rightarrow> None
                    | Some d \<Rightarrow> map_of d name) ls))"

definition lower_char :: "char \<Rightarrow> char" where
  "lower_char c =
     (case map_of (zip ''ABCDEFGHIJKLMNOPQRSTUVWXYZ'' ''abcdefghijklmnopqrstuvwxyz'') c of
        None \<Rightarrow> c
      | Some c' \<Rightarrow> c')"

definition uncapitalize :: "string \<Rightarrow> error + string" where
  "uncapitalize name = (case name of [] \<Rightarrow> Inl IndexError | c # cs \<Rightarrow> Inr (lower_char c # cs))"

text \<open>\<^verbatim>\<open>Font._get_all_user_data\<close>: exported glyphs with at least one recorded value.\<close>

definition get_all_user_data ::
  "(string \<times> nat) list \<Rightarrow> glyph list \<Rightarrow> string \<Rightarrow> error + (string \<times> rat list) list" where
  "get_all_user_data mii font name =
     bind_e (uncapitalize name) (\<lambda>name'.
       fold_e (\<lambda>g mappings.
          if export g
          then bind_e (get_user_data mii g name') (\<lambda>vals.
                 Inr (if vals \<noteq> [] then dict_set (glyph_name g) vals mappings else mappings))
          else Inr mappings) font [])"

text \<open>
  \<^verbatim>\<open>Font._advances\<close>. \<^verbatim>\<open>layer.bounds\<close> is computed by the glyph library and is the
  parameter \<open>bounds\<close>, giving width and height, or nothing for an empty layer.
\<close>

definition advances ::
  "(layer \<Rightarrow> (rat \<times> rat) option) \<Rightarrow> (string \<times> nat) list \<Rightarrow> glyph list \<Rightarrow> string \<Rightarrow> string \<Rightarrow>
   bool \<Rightarrow> error + int list" where
  "advances bounds mii font glyph direction plus_1 =
     (case glyph_by_name font glyph of
        None \<Rightarrow> Inl AttributeError
      | Some g \<Rightarrow>
          bind_e (master_layers mii (layers g)) (\<lambda>ls.
          bind_e (map_e (\<lambda>l. case bounds l of
                                None \<Rightarrow> Inl AttributeError
                              | Some (width, height) \<Rightarrow>
                                  Inr (\<bar>py_round (if direction = ''H'' then width else height)\<bar>))
                    ls) (\<lambda>result.
            Inr (if plus_1 then map (\<lambda>i. i + 1) result else result))))"

text \<open>\<^verbatim>\<open>Font._variant_part\<close>: start connector, end connector and full advance.\<close>

definition variant_part ::
  "(layer \<Rightarrow> (rat \<times> rat) option) \<Rightarrow> (string \<times> nat) list \<Rightarrow> glyph list \<Rightarrow> string \<Rightarrow> string \<Rightarrow>
   error + (rat list \<times> rat list \<times> rat list)" where
  "variant_part bounds mii font glyph direction =
     (case glyph_by_name font glyph of
        None \<Rightarrow> Inl AttributeError
      | Some g \<Rightarrow>
          bind_e (get_user_data mii g ''startConnector'') (\<lambda>sc.
          bind_e (get_user_data mii g ''endConnector'') (\<lambda>ec.
          bind_e (advances bounds mii font glyph direction False) (\<lambda>adv.
            Inr (sc, ec, map of_int adv)))))"

section \<open>The MATH data\<close>

text \<open>
  The same shapes hold lists of per-master values (type parameter \<open>rat list\<close>) in the
  parsed master data and one integer (type parameter \<open>int\<close>) in a style's table.
\<close>

record 'v math_constant =
  cvalue :: 'v
  isMathValue :: bool

record 'v part =
  part_name :: string
  isExtender :: bool
  startConnector :: 'v
  endConnector :: 'v
  fullAdvance :: 'v

record 'v assembly =
  italicsCorrection :: int
  parts :: "'v part list"

record 'v glyph_info_data =
  ItalicCorrection :: "(string \<times> 'v) list"
  TopAccent :: "(string \<times> 'v) list"
  ExtendedShapes :: "string list"

record 'v variants_data =
  MinConnectorOverlap :: 'v
  HorizontalVariants :: "(string \<times> (string \<times> 'v) list) list"
  VerticalVariants :: "(string \<times> (string \<times> 'v) list) list"
  HorizontalComponents :: "(string \<times> 'v assembly) list"
  VerticalComponents :: "(string \<times> 'v assembly) list"

record 'v math_data =
  constants :: "(string \<times> 'v math_constant) list"
  glyph_info :: "'v glyph_info_data"
  variants :: "'v variants_data"

text \<open>The configuration file as loaded, before the per-master data is filled in.\<close>

record toml_part =
  toml_name :: string
  toml_isExtender :: bool

record toml_assembly =
  toml_italicsCorrection :: int
  toml_parts :: "toml_part list"

record toml_variants =
  toml_MinConnectorOverlap :: "rat list"
  toml_HorizontalVariants :: "(string \<times> string list) list"
  toml_VerticalVariants :: "(string \<times> string list) list"
  toml_HorizontalComponents :: "(string \<times> toml_assembly) list"
  toml_VerticalComponents :: "(string \<times> toml_assembly) list"

record toml_data =
  toml_MathConstants :: "(string \<times> rat list math_constant) list"
  toml_MathGlyphInfo :: "rat list glyph_info_data"
  toml_MathVariants :: toml_variants

datatype warning = IncompleteMathGlyphInfo string string "rat list"

section \<open>Parsing the master data\<close>

text \<open>
  The first loop of \<^verbatim>\<open>Font._parse_master_math_table\<close> for one name of the glyph
  information: every glyph with recorded user data gets its list of values; a list
  whose length is not the number of masters is reported on the error stream and replaced
  by its first value repeated.
\<close>

definition fill_glyph_info ::
  "nat \<Rightarrow> string \<Rightarrow> (string \<times> rat list) list \<Rightarrow>
   warning list \<times> (string \<times> rat list) list \<Rightarrow>
   error + (warning list \<times> (string \<times> rat list) list)" where
  "fill_glyph_info masters_num name user_data st =
     fold_e (\<lambda>(glyph, vals) (out, d).
        if length vals \<noteq> masters_num
        then (case vals of
                [] \<Rightarrow> Inl IndexError
              | v0 # _ \<Rightarrow>
                  Inr (out @ [IncompleteMathGlyphInfo glyph name vals],
                       dict_set glyph (replicate masters_num v0) d))
        else Inr (out, dict_set glyph vals d)) user_data st"

text \<open>
  The glyph information of the configuration has the three entries that
  \<^verbatim>\<open>Font._parse_math_table\<close> reads. The extended shapes are a list, so storing under a
  glyph name fails.
\<close>

definition fill_extended_shapes ::
  "(string \<times> rat list) list \<Rightarrow> string list \<Rightarrow> error + string list" where
  "fill_extended_shapes user_data shp = (if user_data = [] then Inr shp else Inl TypeError)"

definition parse_glyph_info ::
  "(string \<times> nat) list \<Rightarrow> nat \<Rightarrow> glyph list \<Rightarrow> rat list glyph_info_data \<Rightarrow>
   error + (warning list \<times> rat list glyph_info_data)" where
  "parse_glyph_info mii masters_num font gi =
     bind_e (get_all_user_data mii font ''ItalicCorrection'') (\<lambda>ud_ic.
     bind_e (fill_glyph_info masters_num ''ItalicCorrection'' ud_ic ([], ItalicCorrection gi))
       (\<lambda>(out1, ic).
     bind_e (get_all_user_data mii font ''TopAccent'') (\<lambda>ud_ta.
     bind_e (fill_glyph_info masters_num ''TopAccent'' ud_ta (out1, TopAccent gi))
       (\<lambda>(out2, ta).
     bind_e (get_all_user_data mii font ''ExtendedShapes'') (\<lambda>ud_es.
     bind_e (fill_extended_shapes ud_es (ExtendedShapes gi)) (\<lambda>es.
       Inr (out2, \<lparr> ItalicCorrection = ic, TopAccent = ta, ExtendedShapes = es \<rparr>)))))))"

text \<open>The variant loops (lines 295 to 304): the advances of every variant glyph, padded.\<close>

definition parse_variants ::
  "(layer \<Rightarrow> (rat \<times> rat) option) \<Rightarrow> (string \<times> nat) list \<Rightarrow> glyph list \<Rightarrow> string \<Rightarrow>
   (string \<times> string list) list \<Rightarrow> error + (string \<times> (string \<times> rat list) list) list" where
  "parse_variants bounds mii font direction vs =
     map_e (\<lambda>(glyph, suffixes).
        bind_e (fold_e (\<lambda>suffix d.
                   bind_e (advances bounds mii font (glyph @ suffix) direction True) (\<lambda>adv.
                     Inr (dict_set (glyph @ suffix) (map of_int adv) d)))
                  suffixes [])
          (\<lambda>d. Inr (glyph, d))) vs"

text \<open>The component loops (lines 305 to 312): every part gains its per-master data.\<close>

definition parse_components ::
  "(layer \<Rightarrow> (rat \<times> rat) option) \<Rightarrow> (string \<times> nat) list \<Rightarrow> glyph list \<Rightarrow> string \<Rightarrow>
   (string \<times> toml_assembly) list \<Rightarrow> error + (string \<times> rat list assembly) list" where
  "parse_components bounds mii font direction cs =
     map_e (\<lambda>(glyph, a).
        bind_e (map_e (\<lambda>p.
                   bind_e (variant_part bounds mii font (toml_name p) direction)
                     (\<lambda>(sc, ec, adv).
                        Inr \<lparr> part_name = toml_name p, isExtender = toml_isExtender p,
                              startConnector = sc, endConnector = ec, fullAdvance = adv \<rparr>))
                  (toml_parts a))
          (\<lambda>ps. Inr (glyph, \<lparr> italicsCorrection = toml_italicsCorrection a, parts = ps \<rparr>))) cs"

text \<open>\<^verbatim>\<open>Font._parse_master_math_table\<close>.\<close>

definition parse_master_math_table ::
  "(layer \<Rightarrow> (rat \<times> rat) option) \<Rightarrow> (string \<times> nat) list \<Rightarrow> nat \<Rightarrow> glyph list \<Rightarrow> toml_data \<Rightarrow>
   error + (warning list \<times> rat list math_data)" where
  "parse_master_math_table bounds mii masters_num font data =
     bind_e (parse_glyph_info mii masters_num font (toml_MathGlyphInfo data)) (\<lambda>(out, gi).
     bind_e (parse_variants bounds mii font ''H''
               (toml_HorizontalVariants (toml_MathVariants data))) (\<lambda>hv.
     bind_e (parse_variants bounds mii font ''V''
               (toml_VerticalVariants (toml_MathVariants data))) (\<lambda>vv.
     bind_e (parse_components bounds mii font ''H''
               (toml_HorizontalComponents (toml_MathVariants data))) (\<lambda>hc.
     bind_e (parse_components bounds mii font ''V''
               (toml_VerticalComponents (toml_MathVariants data))) (\<lambda>vc.
       Inr (out,
            \<lparr> constants = toml_MathConstants data,
              glyph_info = gi,
              variants = \<lparr> MinConnectorOverlap = toml_MinConnectorOverlap (toml_MathVariants data),
                           HorizontalVariants = hv, VerticalVariants = vv,
                           HorizontalComponents = hc, VerticalComponents = vc \<rparr> \<rparr>))))))"

section \<open>Per-style metric interpolation\<close>

text \<open>The local function \<^verbatim>\<open>_generate\<close> of \<^verbatim>\<open>Font._parse_math_table\<close>; reading a
  master index the list does not have raises.\<close>

definition generate :: "(nat \<times> rat) list \<Rightarrow> rat list \<Rightarrow> error + int" where
  "generate interpolation vals =
     bind_e (map_e (\<lambda>(i, v). if i < length vals then Inr (vals ! i * v) else Inl IndexError)
               interpolation)
       (\<lambda>terms. Inr (py_round (sum_list terms)))"

definition is_removed_glyph :: "string list option \<Rightarrow> string \<Rightarrow> bool" where
  "is_removed_glyph remove_glyphs glyph =
     (case remove_glyphs of
        None \<Rightarrow> False
      | Some rs \<Rightarrow> if rs \<noteq> [] then glyph \<in> set rs else False)"

text \<open>A dictionary comprehension that keeps the keys and recomputes the values.\<close>

definition map_values_e :: "('a \<Rightarrow> error + 'b) \<Rightarrow> ('k \<times> 'a) list \<Rightarrow> error + ('k \<times> 'b) list" where
  "map_values_e f d = map_e (\<lambda>(k, v). bind_e (f v) (\<lambda>v'. Inr (k, v'))) d"

text \<open>The local functions \<^verbatim>\<open>_variant\<close> and \<^verbatim>\<open>_componet\<close>.\<close>

definition variant ::
  "(nat \<times> rat) list \<Rightarrow> (string \<times> (string \<times> rat list) list) list \<Rightarrow>
   error + (string \<times> (string \<times> int) list) list" where
  "variant interpolation vs = map_values_e (map_values_e (generate interpolation)) vs"

definition componet_part :: "(nat \<times> rat) list \<Rightarrow> rat list part \<Rightarrow> error + int part" where
  "componet_part interpolation p =
     bind_e (generate interpolation (startConnector p)) (\<lambda>sc.
     bind_e (generate interpolation (endConnector p)) (\<lambda>ec.
     bind_e (generate interpolation (fullAdvance p)) (\<lambda>adv.
       Inr \<lparr> part_name = part_name p, isExtender = isExtender p,
             startConnector = sc, endConnector = ec, fullAdvance = adv \<rparr>)))"

definition componet ::
  "(nat \<times> rat) list \<Rightarrow> (string \<times> rat list assembly) list \<Rightarrow> error + (string \<times> int assembly) list" where
  "componet interpolation cs =
     map_values_e (\<lambda>a.
        bind_e (map_e (componet_part interpolation) (parts a)) (\<lambda>ps.
          Inr \<lparr> italicsCorrection = italicsCorrection a, parts = ps \<rparr>)) cs"

text \<open>The body of the loop over the styles in \<^verbatim>\<open>Font._parse_math_table\<close>.\<close>

definition style_math_table ::
  "(nat \<times> rat) list \<Rightarrow> string list option \<Rightarrow> rat list math_data \<Rightarrow> error + int math_data" where
  "style_math_table interpolation remove_glyphs master_data =
     bind_e (map_values_e (\<lambda>d. bind_e (generate interpolation (cvalue d)) (\<lambda>v.
                Inr \<lparr> cvalue = v, isMathValue = isMathValue d \<rparr>))
               (constants master_data)) (\<lambda>cs.
     bind_e (map_values_e (generate interpolation)
               (filter (\<lambda>(g, _). \<not> is_removed_glyph remove_glyphs g)
                  (ItalicCorrection (glyph_info master_data)))) (\<lambda>ic.
     bind_e (map_values_e (generate interpolation)
               (filter (\<lambda>(g, _). \<not> is_removed_glyph remove_glyphs g)
                  (TopAccent (glyph_info master_data)))) (\<lambda>ta.
     bind_e (generate interpolation (MinConnectorOverlap (variants master_data))) (\<lambda>mco.
     bind_e (variant interpolation (HorizontalVariants (variants master_data))) (\<lambda>hv.
     bind_e (variant interpolation (VerticalVariants (variants master_data))) (\<lambda>vv.
     bind_e (componet interpolation (HorizontalComponents (variants master_data))) (\<lambda>hc.
     bind_e (componet interpolation (VerticalComponents (variants master_data))) (\<lambda>vc.
       Inr \<lparr> constants = cs,
             glyph_info = \<lparr> ItalicCorrection = ic, TopAccent = ta,
                            ExtendedShapes = ExtendedShapes (glyph_info master_data) \<rparr>,
             variants = \<lparr> MinConnectorOverlap = mco,
                          HorizontalVariants = hv, VerticalVariants = vv,
                          HorizontalComponents = hc, VerticalComponents = vc \<rparr> \<rparr>))))))))"

text \<open>\<^verbatim>\<open>Font._parse_math_table\<close> after the master data is parsed: one table for each
  style, with the removed glyphs of the first instance of that name.\<close>

definition parse_math_table ::
  "font_instance list \<Rightarrow> (string \<times> (nat \<times> rat) list) list \<Rightarrow> rat list math_data \<Rightarrow>
   error + (string \<times> int math_data) list" where
  "parse_math_table insts interps master_data =
     fold_e (\<lambda>(style, interpolation) math_tables.
        (case find (\<lambda>i. instance_name i = style) insts of
           None \<Rightarrow> Inl StopIteration
         | Some inst \<Rightarrow>
             bind_e (style_math_table interpolation (remove_glyphs_parameter inst) master_data)
               (\<lambda>t. Inr (dict_set style t math_tables)))) interps []"

section \<open>Binary encoder\<close>

text \<open>The records of the font library that \<^verbatim>\<open>MathTable.encode\<close> fills in.\<close>

record MathValueRecord =
  DeviceTable :: "unit option"
  Value :: int

record GlyphPartRecord =
  part_glyph :: string
  StartConnectorLength :: int
  EndConnectorLength :: int
  FullAdvance :: int
  PartFlags :: int

record GlyphAssembly =
  ItalicsCorrection :: MathValueRecord
  PartCount :: nat
  PartRecords :: "GlyphPartRecord list"

record MathGlyphVariantRecord =
  VariantGlyph :: string
  AdvanceMeasurement :: int

record MathGlyphConstruction =
  GlyphAssembly :: "GlyphAssembly option"
  VariantCount :: nat
  MathGlyphVariantRecord :: "MathGlyphVariantRecord list"

text \<open>\<^verbatim>\<open>MathTable._math_value\<close>.\<close>

definition math_value :: "int \<Rightarrow> MathValueRecord" where
  "math_value v = \<lparr> DeviceTable = None, Value = v \<rparr>"

text \<open>The body of the loop of \<^verbatim>\<open>MathTable._glyph_assembly\<close>.\<close>

definition glyph_part_record :: "int part \<Rightarrow> GlyphPartRecord" where
  "glyph_part_record p =
     \<lparr> part_glyph = part_name p,
       StartConnectorLength = startConnector p,
       EndConnectorLength = endConnector p,
       FullAdvance = fullAdvance p,
       PartFlags = (if isExtender p then 0x0001 else 0xFFFE) \<rparr>"

text \<open>\<^verbatim>\<open>MathTable._glyph_assembly\<close>.\<close>

definition glyph_assembly :: "int assembly \<Rightarrow> GlyphAssembly" where
  "glyph_assembly a =
     \<lparr> ItalicsCorrection = math_value (italicsCorrection a),
       PartCount = length (parts a),
       PartRecords = map glyph_part_record (parts a) \<rparr>"

text \<open>\<^verbatim>\<open>MathTable._glyph_construction\<close>.\<close>

definition glyph_construction :: "(string \<times> int) list \<Rightarrow> MathGlyphConstruction" where
  "glyph_construction vs =
     \<lparr> GlyphAssembly = None,
       VariantCount = length vs,
       MathGlyphVariantRecord =
         map (\<lambda>(g, advance). \<lparr> VariantGlyph = g, AdvanceMeasurement = advance \<rparr>) vs \<rparr>"

text \<open>
  \<^verbatim>\<open>MathTable._variants\<close> for one direction: a construction for every glyph with
  variants, then the assembly of every glyph with components, on a fresh construction
  when the glyph has none yet. The result is the constructions, the glyphs covered and
  their number.
\<close>

definition set_assembly ::
  "string \<times> int assembly \<Rightarrow> (string \<times> MathGlyphConstruction) list \<Rightarrow>
   (string \<times> MathGlyphConstruction) list" where
  "set_assembly ga constructions =
     (let g = fst ga;
          c = (case map_of constructions g of
                 None \<Rightarrow> glyph_construction []
               | Some c' \<Rightarrow> c')
      in dict_set g (c\<lparr> GlyphAssembly := Some (glyph_assembly (snd ga)) \<rparr>) constructions)"

definition encode_variants ::
  "(string \<times> (string \<times> int) list) list \<Rightarrow> (string \<times> int assembly) list \<Rightarrow>
   MathGlyphConstruction list \<times> string list \<times> nat" where
  "encode_variants vs cs =
     (let constructions =
            fold set_assembly cs
              (fold (\<lambda>(g, v). dict_set g (glyph_construction v)) vs [])
      in (map snd constructions, map fst constructions, length constructions))"

section \<open>Invariant of the decomposer\<close>





section \<open>Example data\<close>

text \<open>Small fonts on which the properties below are evaluated.\<close>

definition ex_node :: "rat \<Rightarrow> rat \<Rightarrow> node" where
  "ex_node x y = \<lparr> position = (x, y), ntype = ''line'', smooth = False \<rparr>"

definition ex_layer :: "string \<Rightarrow> string \<Rightarrow> (string \<times> int) list \<Rightarrow> shape list \<Rightarrow> layer" where
  "ex_layer lid mid sel shp =
     \<lparr> layerId = lid, associatedMasterId = mid, partSelection = sel, shapes = shp,
       userData = [] \<rparr>"

definition ex_smart_glyph :: glyph where
  "ex_smart_glyph =
     \<lparr> glyph_name = ''_part.stem'', export = False,
       smartComponentAxes = [\<lparr> axis_name = ''height'', bottomValue = 0, topValue = 100 \<rparr>],
       layers =
         [ex_layer ''m0'' ''m0'' [(''height'', 1)]
            [Path \<lparr> nodes = [ex_node 0 0, ex_node 10 0, ex_node 10 20], closed = True \<rparr>],
          ex_layer ''m0.tall'' ''m0'' [(''height'', 2)]
            [Path \<lparr> nodes = [ex_node 0 0, ex_node 10 0, ex_node 10 40], closed = True \<rparr>]] \<rparr>"

definition ex_short_glyph :: glyph where
  "ex_short_glyph =
     \<lparr> glyph_name = ''_part.short'', export = False,
       smartComponentAxes = [\<lparr> axis_name = ''height'', bottomValue = 0, topValue = 100 \<rparr>],
       layers =
         [ex_layer ''m0'' ''m0'' [(''height'', 1)]
            [Path \<lparr> nodes = [ex_node 0 0, ex_node 10 0, ex_node 10 20], closed = True \<rparr>,
             Path \<lparr> nodes = [ex_node 5 5, ex_node 6 6], closed = False \<rparr>],
          ex_layer ''m0.tall'' ''m0'' [(''height'', 2)]
            [Path \<lparr> nodes = [ex_node 0 0, ex_node 10 40], closed = True \<rparr>]] \<rparr>"

definition ex_component :: "string \<Rightarrow> (string \<times> rat) list \<Rightarrow> component" where
  "ex_component n vals =
     \<lparr> cname = n, ctransform = (1, 0, 0, 1, 0, 0), smartComponentValues = vals \<rparr>"






definition ex_master_data :: "rat list math_data" where
  "ex_master_data =
     \<lparr> constants = [(''AxisHeight'', \<lparr> cvalue = [100, 200], isMathValue = True \<rparr>)],
       glyph_info =
         \<lparr> ItalicCorrection = [(''f'', [10, 20]), (''g'', [4, 6])],
           TopAccent = [(''f'', [50, 60])],
           ExtendedShapes = [''f'', ''integral''] \<rparr>,
       variants =
         \<lparr> MinConnectorOverlap = [20, 40],
           HorizontalVariants = [(''f'', [(''f.v1'', [3, 4])])],
           VerticalVariants = [],
           HorizontalComponents = [],
           VerticalComponents =
             [(''f'', \<lparr> italicsCorrection = 7,
                       parts = [\<lparr> part_name = ''f.ext'', isExtender = True,
                                  startConnector = [10, 30], endConnector = [10, 30],
                                  fullAdvance = [100, 200] \<rparr>] \<rparr>)] \<rparr> \<rparr>"









section \<open>Properties\<close>


lemma bind_e_Inr [simp]: "bind_e (Inr x) f = f x"
  by (simp add: bind_e_def)

lemma bind_e_Inl [simp]: "bind_e (Inl e) f = Inl e"
  by (simp add: bind_e_def)

lemma bind_e_eq_Inr: "bind_e m f = Inr y \<longleftrightarrow> (\<exists>x. m = Inr x \<and> f x = Inr y)"
  by (cases m) simp_all


lemma map_e_Inr_all2: "map_e f xs = Inr ys \<Longrightarrow> list_all2 (\<lambda>x y. f x = Inr y) xs ys"
proof (induction xs arbitrary: ys)
  case Nil
  then show ?case by simp
next
  case (Cons x xs)
  then obtain y ys' where "f x = Inr y" "map_e f xs = Inr ys'" "ys = y # ys'"
    by (auto simp: bind_e_eq_Inr)
  with Cons.IH show ?case by simp
qed

lemma py_round_near: "\<bar>x - of_int k\<bar> < 1 / 2 \<Longrightarrow> py_round x = k"
proof (cases "of_int k \<le> x")
  case True
  assume "\<bar>x - of_int k\<bar> < 1 / 2"
  with True have "\<lfloor>x\<rfloor> = k" by (intro floor_unique) auto
  with True \<open>\<bar>x - of_int k\<bar> < 1 / 2\<close> show ?thesis by (simp add: py_round_def)
next
  case False
  assume a: "\<bar>x - of_int k\<bar> < 1 / 2"
  with False have "\<lfloor>x\<rfloor> = k - 1" by (intro floor_unique) auto
  with False a show ?thesis by (simp add: py_round_def)
qed

lemma py_round_nearest: "\<bar>of_int (py_round x) - x\<bar> \<le> 1 / 2"
proof -
  have "of_int \<lfloor>x\<rfloor> \<le> x" "x < of_int \<lfloor>x\<rfloor> + 1" by linarith+
  then show ?thesis by (auto simp: py_round_def Let_def)
qed

lemma py_round_half: "py_round (of_int k + 1 / 2) = (if even k then k else k + 1)"
proof -
  have "\<lfloor>of_int k + (1 / 2 :: rat)\<rfloor> = k" by (intro floor_unique) auto
  then show ?thesis by (simp add: py_round_def)
qed


text \<open>
  Claim C8. In an encoded glyph assembly an extender part gets the part flags
  \<open>0x0001\<close> and a part that is not an extender gets \<open>0xFFFE\<close>, for every part
  record.
\<close>

theorem part_flags_literal:
  "(isExtender p \<longrightarrow> PartFlags (glyph_part_record p) = 0x0001)
   \<and> (\<not> isExtender p \<longrightarrow> PartFlags (glyph_part_record p) = 0xFFFE)
   \<and> map PartFlags (PartRecords (glyph_assembly a)) =
       map (\<lambda>p. if isExtender p then 0x0001 else 0xFFFE) (parts a)"
  by (simp add: glyph_part_record_def glyph_assembly_def)

text \<open>
  Witness for C8: an extender part and a fixed part.
\<close>

theorem part_flags_literal_witness:
  "isExtender \<lparr> part_name = ''ext'', isExtender = True, startConnector = 10::int,
                 endConnector = 10, fullAdvance = 100 \<rparr>
   \<and> \<not> isExtender \<lparr> part_name = ''top'', isExtender = False, startConnector = 0::int,
                     endConnector = 10, fullAdvance = 50 \<rparr>
   \<and> PartFlags (glyph_part_record \<lparr> part_name = ''ext'', isExtender = True,
        startConnector = 10, endConnector = 10, fullAdvance = 100 \<rparr>) = 1
   \<and> PartFlags (glyph_part_record \<lparr> part_name = ''top'', isExtender = False,
        startConnector = 0, endConnector = 10, fullAdvance = 50 \<rparr>) = 65534"
  using part_flags_literal [of "\<lparr> part_name = ''ext'', isExtender = True, startConnector = 10,
                 endConnector = 10, fullAdvance = 100 \<rparr>"]
    part_flags_literal [of "\<lparr> part_name = ''top'', isExtender = False, startConnector = 0,
                     endConnector = 10, fullAdvance = 50 \<rparr>"]
  by simp




subsection \<open>Smart components\<close>








text \<open>
  Claim C2, as amended. When the part-1 and the part-2 layer are found, the resolution
  succeeds whatever their path and node counts are: paths are paired by position up to
  the shorter list, and so are the nodes of two paired paths.
\<close>

theorem mismatched_layers_truncate:
  "(ref_glyph = Some g
      \<and> next_where (\<lambda>l. is_part_n l 1) (layers g) = Inr layer_0
      \<and> next_where (\<lambda>l. is_part_n l 2) (layers g) = Inr layer_1
    \<longrightarrow> (\<exists>ps. interpolate_layers applyTransform cmp ref_glyph is_part_n t = Inr ps
           \<and> length ps = min (length (paths layer_0)) (length (paths layer_1))
           \<and> ps = map2 (\<lambda>p q. applyTransform (ctransform cmp) (interpolate_path p q t))
                    (paths layer_0) (paths layer_1)))
   \<and> length (nodes (interpolate_path path_0 path_1 t)) =
       min (length (nodes path_0)) (length (nodes path_1))"
  by (simp add: interpolate_layers_def interpolate_path_def)




text \<open>
  Counterexample to C2 as stated: the part-1 layer has two paths of three and two
  nodes, the part-2 layer one path of two nodes, and the resolution returns one path of
  two nodes instead of failing.
\<close>

theorem mismatched_layers_succeed:
  "length (paths (layers ex_short_glyph ! 0)) = 2
   \<and> length (paths (layers ex_short_glyph ! 1)) = 1
   \<and> map (\<lambda>p. length (nodes p)) (paths (layers ex_short_glyph ! 0)) = [3, 2]
   \<and> map (\<lambda>p. length (nodes p)) (paths (layers ex_short_glyph ! 1)) = [2]
   \<and> smart_component_to_paths (\<lambda>tr p. p) [ex_smart_glyph, ex_short_glyph] ''m0''
       (ex_component ''_part.short'' [(''height'', 50)]) =
     Inr [\<lparr> nodes = [ex_node 0 0, ex_node 10 20], closed = True \<rparr>]"
  by code_simp

text \<open>
  Witness for the amended C2: two paths against one, three nodes against two.
\<close>

theorem mismatched_layers_truncate_witness:
  "interpolate_layers (\<lambda>tr p. p) (ex_component ''_part.short'' [(''height'', 50)])
     (Some ex_short_glyph) (is_part_n_key ''m0'' ''height'') (1 / 2) =
     Inr [\<lparr> nodes = [ex_node 0 0, ex_node 10 20], closed = True \<rparr>]
   \<and> length (nodes (interpolate_path
        \<lparr> nodes = [ex_node 0 0, ex_node 10 0, ex_node 10 20], closed = True \<rparr>
        \<lparr> nodes = [ex_node 0 0, ex_node 10 40], closed = True \<rparr> (1 / 2))) = 2"
proof -
  let ?l0 = "layers ex_short_glyph ! 0"
  let ?l1 = "layers ex_short_glyph ! 1"
  have h: "Some ex_short_glyph = Some ex_short_glyph
      \<and> next_where (\<lambda>l. is_part_n_key ''m0'' ''height'' l 1) (layers ex_short_glyph) = Inr ?l0
      \<and> next_where (\<lambda>l. is_part_n_key ''m0'' ''height'' l 2) (layers ex_short_glyph) = Inr ?l1"
    by code_simp
  note t = mismatched_layers_truncate [where ref_glyph = "Some ex_short_glyph"
      and g = ex_short_glyph and is_part_n = "is_part_n_key ''m0'' ''height''"
      and ?layer_0.0 = ?l0 and ?layer_1.0 = ?l1 and applyTransform = "\<lambda>tr p. p"
      and cmp = "ex_component ''_part.short'' [(''height'', 50)]" and t = "1 / 2"
      and ?path_0.0 = "\<lparr> nodes = [ex_node 0 0, ex_node 10 0, ex_node 10 20], closed = True \<rparr>"
      and ?path_1.0 = "\<lparr> nodes = [ex_node 0 0, ex_node 10 40], closed = True \<rparr>"]
  from t h have "interpolate_layers (\<lambda>tr p. p) (ex_component ''_part.short'' [(''height'', 50)])
     (Some ex_short_glyph) (is_part_n_key ''m0'' ''height'') (1 / 2) =
     Inr (map2 (\<lambda>p q. interpolate_path p q (1 / 2)) (paths ?l0) (paths ?l1))"
    by blast
  moreover have "map2 (\<lambda>p q. interpolate_path p q (1 / 2)) (paths ?l0) (paths ?l1) =
     [\<lparr> nodes = [ex_node 0 0, ex_node 10 20], closed = True \<rparr>]"
    by code_simp
  moreover from t have "length (nodes (interpolate_path
        \<lparr> nodes = [ex_node 0 0, ex_node 10 0, ex_node 10 20], closed = True \<rparr>
        \<lparr> nodes = [ex_node 0 0, ex_node 10 40], closed = True \<rparr> (1 / 2))) =
      min (length [ex_node 0 0, ex_node 10 0, ex_node 10 20]) (length [ex_node 0 0, ex_node 10 40])"
    by simp
  ultimately show ?thesis by simp
qed

subsection \<open>Variant advances\<close>







subsection \<open>Incomplete per-master data\<close>










subsection \<open>Tables of the styles\<close>

lemma map_values_e_all2:
  "map_values_e f d = Inr d' \<Longrightarrow> list_all2 (\<lambda>(k, v) (k', v'). k' = k \<and> f v = Inr v') d d'"
proof -
  assume "map_values_e f d = Inr d'"
  then have "list_all2 (\<lambda>x y. (case x of (k, v) \<Rightarrow> bind_e (f v) (\<lambda>v'. Inr (k, v'))) = Inr y) d d'"
    unfolding map_values_e_def by (rule map_e_Inr_all2)
  then show ?thesis
    by (rule list_all2_mono) (auto simp: bind_e_eq_Inr)
qed




lemma componet_all2:
  assumes "componet interpolation cs = Inr cs'"
  shows "list_all2 (\<lambda>(g, a) (g', a'). g' = g \<and> italicsCorrection a' = italicsCorrection a
      \<and> list_all2 (\<lambda>p p'. componet_part interpolation p = Inr p') (parts a) (parts a')) cs cs'"
proof -
  from assms have "list_all2 (\<lambda>(k, v) (k', v'). k' = k \<and>
      bind_e (map_e (componet_part interpolation) (parts v)) (\<lambda>ps.
          Inr \<lparr> italicsCorrection = italicsCorrection v, parts = ps \<rparr>) = Inr v') cs cs'"
    unfolding componet_def by (rule map_values_e_all2)
  then show ?thesis
    by (rule list_all2_mono) (auto simp: bind_e_eq_Inr dest: map_e_Inr_all2)
qed

lemma componet_part_fields:
  "componet_part interpolation p = Inr p' \<Longrightarrow>
     part_name p' = part_name p \<and> isExtender p' = isExtender p
     \<and> generate interpolation (startConnector p) = Inr (startConnector p')
     \<and> generate interpolation (endConnector p) = Inr (endConnector p')
     \<and> generate interpolation (fullAdvance p) = Inr (fullAdvance p')"
  by (auto simp: componet_part_def bind_e_eq_Inr)


lemma componet_italics:
  assumes "componet interpolation cs = Inr cs'"
  shows "map (\<lambda>(g, a). (g, italicsCorrection a)) cs' = map (\<lambda>(g, a). (g, italicsCorrection a)) cs"
  using componet_all2 [OF assms] by (induction rule: list_all2_induct) auto

lemma componet_parts_interpolated:
  assumes "componet interpolation cs = Inr cs'"
  shows "list_all2 (\<lambda>(g, a) (g', a').
      list_all2 (\<lambda>p p'. generate interpolation (startConnector p) = Inr (startConnector p')
                   \<and> generate interpolation (endConnector p) = Inr (endConnector p')
                   \<and> generate interpolation (fullAdvance p) = Inr (fullAdvance p'))
        (parts a) (parts a')) cs cs'"
proof -
  have n: "list_all2 (\<lambda>p p'. generate interpolation (startConnector p) = Inr (startConnector p')
                   \<and> generate interpolation (endConnector p) = Inr (endConnector p')
                   \<and> generate interpolation (fullAdvance p) = Inr (fullAdvance p')) ps ps'"
    if "list_all2 (\<lambda>p p'. componet_part interpolation p = Inr p') ps ps'" for ps ps'
    using that by (rule list_all2_mono) (auto dest: componet_part_fields)
  from componet_all2 [OF assms] show ?thesis
    by (rule list_all2_mono) (auto dest: n)
qed


lemma style_math_table_fields:
  assumes "style_math_table interpolation remove_glyphs master_data = Inr t"
  shows "\<exists>ic ta hv vv hc vc.
     map_values_e (generate interpolation)
       (filter (\<lambda>(g, _). \<not> is_removed_glyph remove_glyphs g)
          (ItalicCorrection (glyph_info master_data))) = Inr ic
     \<and> map_values_e (generate interpolation)
       (filter (\<lambda>(g, _). \<not> is_removed_glyph remove_glyphs g)
          (TopAccent (glyph_info master_data))) = Inr ta
     \<and> variant interpolation (HorizontalVariants (variants master_data)) = Inr hv
     \<and> variant interpolation (VerticalVariants (variants master_data)) = Inr vv
     \<and> componet interpolation (HorizontalComponents (variants master_data)) = Inr hc
     \<and> componet interpolation (VerticalComponents (variants master_data)) = Inr vc
     \<and> ItalicCorrection (glyph_info t) = ic \<and> TopAccent (glyph_info t) = ta
     \<and> ExtendedShapes (glyph_info t) = ExtendedShapes (glyph_info master_data)
     \<and> HorizontalVariants (variants t) = hv \<and> VerticalVariants (variants t) = vv
     \<and> HorizontalComponents (variants t) = hc \<and> VerticalComponents (variants t) = vc"
  using assms unfolding style_math_table_def bind_e_eq_Inr by fastforce




text \<open>
  Claim C10. The italic correction of every glyph assembly of a style is the one of the
  parsed master data, so two styles of the same master data agree on it, and it is
  encoded as it is; the start connector, end connector and full advance of every part
  are interpolated with the vector of the style.
\<close>

theorem italics_correction_verbatim:
  "(style_math_table interpolation remove_glyphs master_data = Inr t \<longrightarrow>
      map (\<lambda>(g, a). (g, italicsCorrection a)) (HorizontalComponents (variants t)) =
        map (\<lambda>(g, a). (g, italicsCorrection a)) (HorizontalComponents (variants master_data))
      \<and> map (\<lambda>(g, a). (g, italicsCorrection a)) (VerticalComponents (variants t)) =
        map (\<lambda>(g, a). (g, italicsCorrection a)) (VerticalComponents (variants master_data))
      \<and> list_all2 (\<lambda>(g, a) (g', a').
          list_all2 (\<lambda>p p'. generate interpolation (startConnector p) = Inr (startConnector p')
                       \<and> generate interpolation (endConnector p) = Inr (endConnector p')
                       \<and> generate interpolation (fullAdvance p) = Inr (fullAdvance p'))
            (parts a) (parts a'))
          (HorizontalComponents (variants master_data)) (HorizontalComponents (variants t))
      \<and> list_all2 (\<lambda>(g, a) (g', a').
          list_all2 (\<lambda>p p'. generate interpolation (startConnector p) = Inr (startConnector p')
                       \<and> generate interpolation (endConnector p) = Inr (endConnector p')
                       \<and> generate interpolation (fullAdvance p) = Inr (fullAdvance p'))
            (parts a) (parts a'))
          (VerticalComponents (variants master_data)) (VerticalComponents (variants t)))
   \<and> (style_math_table interpolation remove_glyphs master_data = Inr t
        \<and> style_math_table interpolation' remove_glyphs' master_data = Inr t' \<longrightarrow>
      map (\<lambda>(g, a). (g, italicsCorrection a)) (HorizontalComponents (variants t')) =
        map (\<lambda>(g, a). (g, italicsCorrection a)) (HorizontalComponents (variants t))
      \<and> map (\<lambda>(g, a). (g, italicsCorrection a)) (VerticalComponents (variants t')) =
        map (\<lambda>(g, a). (g, italicsCorrection a)) (VerticalComponents (variants t)))
   \<and> Value (ItalicsCorrection (glyph_assembly a)) = italicsCorrection a"
proof -
  have one: "map (\<lambda>(g, a). (g, italicsCorrection a)) (HorizontalComponents (variants u)) =
        map (\<lambda>(g, a). (g, italicsCorrection a)) (HorizontalComponents (variants master_data))
      \<and> map (\<lambda>(g, a). (g, italicsCorrection a)) (VerticalComponents (variants u)) =
        map (\<lambda>(g, a). (g, italicsCorrection a)) (VerticalComponents (variants master_data))
      \<and> list_all2 (\<lambda>(g, a) (g', a').
          list_all2 (\<lambda>p p'. generate i (startConnector p) = Inr (startConnector p')
                       \<and> generate i (endConnector p) = Inr (endConnector p')
                       \<and> generate i (fullAdvance p) = Inr (fullAdvance p'))
            (parts a) (parts a'))
          (HorizontalComponents (variants master_data)) (HorizontalComponents (variants u))
      \<and> list_all2 (\<lambda>(g, a) (g', a').
          list_all2 (\<lambda>p p'. generate i (startConnector p) = Inr (startConnector p')
                       \<and> generate i (endConnector p) = Inr (endConnector p')
                       \<and> generate i (fullAdvance p) = Inr (fullAdvance p'))
            (parts a) (parts a'))
          (VerticalComponents (variants master_data)) (VerticalComponents (variants u))"
    if a: "style_math_table i rg master_data = Inr u" for i rg u
  proof -
    from style_math_table_fields [OF a] obtain hc vc where f:
      "componet i (HorizontalComponents (variants master_data)) = Inr hc"
      "componet i (VerticalComponents (variants master_data)) = Inr vc"
      "HorizontalComponents (variants u) = hc" "VerticalComponents (variants u) = vc"
      by blast
    show ?thesis
      using componet_italics [OF f(1)] componet_italics [OF f(2)]
        componet_parts_interpolated [OF f(1)] componet_parts_interpolated [OF f(2)] f(3,4)
      by simp
  qed
  have v: "Value (ItalicsCorrection (glyph_assembly a)) = italicsCorrection a"
    by (simp add: glyph_assembly_def math_value_def)
  show ?thesis
  proof (intro conjI impI)
    assume a: "style_math_table interpolation remove_glyphs master_data = Inr t
        \<and> style_math_table interpolation' remove_glyphs' master_data = Inr t'"
    from one [of interpolation remove_glyphs t] one [of interpolation' remove_glyphs' t'] a
    show "map (\<lambda>(g, a). (g, italicsCorrection a)) (HorizontalComponents (variants t')) =
        map (\<lambda>(g, a). (g, italicsCorrection a)) (HorizontalComponents (variants t))"
      and "map (\<lambda>(g, a). (g, italicsCorrection a)) (VerticalComponents (variants t')) =
        map (\<lambda>(g, a). (g, italicsCorrection a)) (VerticalComponents (variants t))"
      by simp_all
  qed (use one [of interpolation remove_glyphs t] v in simp_all)
qed

text \<open>
  Witness for C10: the styles that sit on the first and on the second master have the
  same italic correction and different full advances.
\<close>

theorem italics_correction_verbatim_witness:
  "(\<exists>t t'. style_math_table [(0, 1)] None ex_master_data = Inr t
      \<and> style_math_table [(1, 1)] None ex_master_data = Inr t'
      \<and> map (\<lambda>(g, a). (g, italicsCorrection a)) (VerticalComponents (variants t)) = [(''f'', 7)]
      \<and> map (\<lambda>(g, a). (g, italicsCorrection a)) (VerticalComponents (variants t')) = [(''f'', 7)]
      \<and> map (\<lambda>(g, a). map fullAdvance (parts a)) (VerticalComponents (variants t)) = [[100]]
      \<and> map (\<lambda>(g, a). map fullAdvance (parts a)) (VerticalComponents (variants t')) = [[200]])"
proof -
  let ?t = "\<lparr> constants = [(''AxisHeight'', \<lparr> cvalue = 100 :: int, isMathValue = True \<rparr>)],
       glyph_info =
         \<lparr> ItalicCorrection = [(''f'', 10), (''g'', 4)],
           TopAccent = [(''f'', 50)],
           ExtendedShapes = [''f'', ''integral''] \<rparr>,
       variants =
         \<lparr> MinConnectorOverlap = 20,
           HorizontalVariants = [(''f'', [(''f.v1'', 3)])],
           VerticalVariants = [],
           HorizontalComponents = [],
           VerticalComponents =
             [(''f'', \<lparr> italicsCorrection = 7,
                       parts = [\<lparr> part_name = ''f.ext'', isExtender = True,
                                  startConnector = 10, endConnector = 10,
                                  fullAdvance = 100 \<rparr>] \<rparr>)] \<rparr> \<rparr>"
  let ?t' = "\<lparr> constants = [(''AxisHeight'', \<lparr> cvalue = 200 :: int, isMathValue = True \<rparr>)],
       glyph_info =
         \<lparr> ItalicCorrection = [(''f'', 20), (''g'', 6)],
           TopAccent = [(''f'', 60)],
           ExtendedShapes = [''f'', ''integral''] \<rparr>,
       variants =
         \<lparr> MinConnectorOverlap = 40,
           HorizontalVariants = [(''f'', [(''f.v1'', 4)])],
           VerticalVariants = [],
           HorizontalComponents = [],
           VerticalComponents =
             [(''f'', \<lparr> italicsCorrection = 7,
                       parts = [\<lparr> part_name = ''f.ext'', isExtender = True,
                                  startConnector = 30, endConnector = 30,
                                  fullAdvance = 200 \<rparr>] \<rparr>)] \<rparr> \<rparr>"
  have t: "style_math_table [(0, 1)] None ex_master_data = Inr ?t" by code_simp
  have t': "style_math_table [(1, 1)] None ex_master_data = Inr ?t'" by code_simp
  have m: "map (\<lambda>(g, a). (g, italicsCorrection a)) (VerticalComponents (variants ex_master_data)) =
     [(''f'', 7)]" by (simp add: ex_master_data_def)
  from italics_correction_verbatim [where interpolation = "[(0, 1)]" and remove_glyphs = None
      and master_data = ex_master_data and t = ?t and interpolation' = "[(1, 1)]"
      and remove_glyphs' = None and t' = ?t'] t t'
  have "map (\<lambda>(g, a). (g, italicsCorrection a)) (VerticalComponents (variants ?t)) =
        map (\<lambda>(g, a). (g, italicsCorrection a)) (VerticalComponents (variants ex_master_data))"
    "map (\<lambda>(g, a). (g, italicsCorrection a)) (VerticalComponents (variants ?t')) =
        map (\<lambda>(g, a). (g, italicsCorrection a)) (VerticalComponents (variants ?t))"
    by blast+
  with t t' m show ?thesis
    by (intro exI [of _ ?t] exI [of _ ?t']) simp
qed

subsection \<open>Component decomposer\<close>







lemma length_upd_layer [simp]: "length (upd_layer gi li f t) = length t"
  by (simp add: upd_layer_def)



lemma components_extend_paths [simp]: "components (extend_paths ps l) = components l"
  by (simp add: components_def extend_paths_def List.map_filter_def)

lemma paths_extend_paths [simp]: "paths (extend_paths ps l) = paths l @ ps"
  by (simp add: paths_def extend_paths_def List.map_filter_def comp_def)

lemma components_remove_shapes [simp]:
  "components (remove_shapes rem l) = filter (\<lambda>c. c \<notin> set rem) (components l)"
proof -
  have "List.map_filter (\<lambda>s. case s of Path _ \<Rightarrow> None | Component c \<Rightarrow> Some c)
          (filter (\<lambda>s. s \<notin> Component ` set rem) xs) =
        filter (\<lambda>c. c \<notin> set rem)
          (List.map_filter (\<lambda>s. case s of Path _ \<Rightarrow> None | Component c \<Rightarrow> Some c) xs)" for xs
    by (induction xs) (auto split: shape.splits)
  then show ?thesis by (simp add: components_def remove_shapes_def)
qed

lemma paths_remove_shapes [simp]: "paths (remove_shapes rem l) = paths l"
proof -
  have "List.map_filter (\<lambda>s. case s of Path p \<Rightarrow> Some p | Component _ \<Rightarrow> None)
          (filter (\<lambda>s. s \<notin> Component ` set rem) xs) =
        List.map_filter (\<lambda>s. case s of Path p \<Rightarrow> Some p | Component _ \<Rightarrow> None) xs" for xs
    by (induction xs) (auto split: shape.splits)
  then show ?thesis by (simp add: paths_def remove_shapes_def)
qed

lemma remove_shapes_nothing [simp]: "remove_shapes [] l = l"
  by (simp add: remove_shapes_def)






















end
